theory Spec2Isabelle
  imports
    Main
    "HOL-Library.Char_ord"
    "HOL-Library.List_Lexorder"
    "HOL-Library.Sublist"
    "HOL-Library.AList"
begin

section \<open>Strings as Python's \<open>str\<close> methods use them\<close>

text \<open>
  A Python \<open>str\<close> is modelled as a \<open>string\<close> (a \<open>char list\<close>). The character
  classes are the ASCII ones: \<open>isalpha\<close>, \<open>isalnum\<close>, \<open>isspace\<close>, \<open>upper\<close> and
  \<open>lower\<close> are modelled on code points below 128, which is the alphabet of module
  identifiers, of the registry file and of the placeholder tokens. Characters outside
  ASCII count as neither letters, digits nor white space and have no case.
\<close>

definition ascii_lowercase :: string where
  "ascii_lowercase = ''abcdefghijklmnopqrstuvwxyz''"

definition ascii_uppercase :: string where
  "ascii_uppercase = ''ABCDEFGHIJKLMNOPQRSTUVWXYZ''"

definition ascii_digits :: string where
  "ascii_digits = ''0123456789''"

definition newline :: char where
  "newline = CHR 0x0A"

definition ascii_whitespace :: string where
  "ascii_whitespace =
     [CHR 0x09, CHR 0x0A, CHR 0x0B, CHR 0x0C, CHR 0x0D, CHR 0x1C, CHR 0x1D, CHR 0x1E, CHR 0x1F, CHR 0x20]"

definition char_isalpha :: "char \<Rightarrow> bool" where
  "char_isalpha c = (c \<in> set ascii_lowercase \<or> c \<in> set ascii_uppercase)"

definition char_isalnum :: "char \<Rightarrow> bool" where
  "char_isalnum c = (char_isalpha c \<or> c \<in> set ascii_digits)"

definition char_isspace :: "char \<Rightarrow> bool" where
  "char_isspace c = (c \<in> set ascii_whitespace)"

definition char_upper :: "char \<Rightarrow> char" where
  "char_upper c =
     (case map_of (zip ascii_lowercase ascii_uppercase) c of Some u \<Rightarrow> u | None \<Rightarrow> c)"

definition char_lower :: "char \<Rightarrow> char" where
  "char_lower c =
     (case map_of (zip ascii_uppercase ascii_lowercase) c of Some l \<Rightarrow> l | None \<Rightarrow> c)"

text \<open>\<open>s.upper()\<close>, \<open>s.lower()\<close>, \<open>s.isalnum()\<close> (false on the empty string) and \<open>s.strip()\<close>.\<close>

definition str_upper :: "string \<Rightarrow> string" where
  "str_upper s = map char_upper s"

definition str_lower :: "string \<Rightarrow> string" where
  "str_lower s = map char_lower s"

definition str_isalnum :: "string \<Rightarrow> bool" where
  "str_isalnum s = (s \<noteq> [] \<and> list_all char_isalnum s)"

definition str_strip :: "string \<Rightarrow> string" where
  "str_strip s = rev (dropWhile char_isspace (rev (dropWhile char_isspace s)))"

text \<open>\<open>sub in s\<close>: \<open>sub\<close> occurs in \<open>s\<close> as a contiguous substring.\<close>

fun str_contains :: "string \<Rightarrow> string \<Rightarrow> bool" where
  "str_contains [] sub = (sub = [])"
| "str_contains (c # cs) sub = (prefix sub (c # cs) \<or> str_contains cs sub)"

text \<open>
  \<open>s.replace(old, new)\<close>: the occurrences of \<open>old\<close> are found from left to right without
  overlap, and the text that replaced one is not scanned again. With an empty \<open>old\<close>
  Python puts \<open>new\<close> before every character and at the end.
\<close>

fun replace_scan :: "string \<Rightarrow> string \<Rightarrow> string \<Rightarrow> string" where
  "replace_scan old new [] = []"
| "replace_scan old new (c # cs) =
     (if old \<noteq> [] \<and> prefix old (c # cs)
      then new @ replace_scan old new (drop (length old) (c # cs))
      else c # replace_scan old new cs)"

definition str_replace :: "string \<Rightarrow> string \<Rightarrow> string \<Rightarrow> string" where
  "str_replace old new s =
     (if old = [] then new @ concat (map (\<lambda>c. c # new) s) else replace_scan old new s)"

text \<open>
  \<open>f.readlines()\<close> on a file opened in text mode: the text is cut after every newline,
  each line keeps its newline, and a last line without one is kept as it is.
\<close>

fun readlines :: "string \<Rightarrow> string list" where
  "readlines [] = []"
| "readlines (c # cs) =
     (if c = newline then [c] # readlines cs
      else (case readlines cs of [] \<Rightarrow> [[c]] | l # ls \<Rightarrow> (c # l) # ls))"

section \<open>createModule.py: the identifier validator\<close>

text \<open>
  \<open>validate_module_id\<close>, check by check in the order of the source. The diagnostic
  printed by each failing check is not part of the model.
\<close>

definition validate_module_id :: "string \<Rightarrow> bool" where
  "validate_module_id module_id =
     (if module_id = [] then False
      else if length module_id \<noteq> 4 then False
      else if \<not> str_isalnum module_id then False
      else if \<not> char_isalpha (hd module_id) then False
      else if module_id \<noteq> str_upper module_id then False
      else True)"


section \<open>The file system and the console\<close>

text \<open>
  A file holds either text (what decoding its bytes as UTF-8 gives) or bytes that do not
  decode, and carries the two permissions that make \<open>open\<close> fail. A directory lists
  its entries by name; the order of the list is the order in which \<open>iterdir\<close> and
  \<open>os.walk\<close> happen to enumerate them. File contents are the decoded text, so the
  translation of line endings done by text mode is not modelled. A module identifier is
  looked up as one path component.
\<close>

datatype content = Text string | Undecodable "nat list"

record regular_file =
  data :: content
  readable :: bool
  writable :: bool

datatype node = File regular_file | Dir "(string \<times> node) list"

type_synonym directory = "(string \<times> node) list"

text \<open>
  The part of the project root the scripts touch: \<open>template/module\<close> and \<open>modules\<close>,
  each absent (\<open>None\<close>) or present.
\<close>

record world =
  template :: "node option"
  modules :: "directory option"

text \<open>
  How a run of a script ends: it returns from \<open>main\<close> (exit code 0), calls
  \<open>sys.exit(n)\<close>, or dies of an exception nothing catches (exit code 1).
\<close>

datatype status = Returned | SysExit nat | Uncaught


text \<open>The lines the scripts print, one constructor for each \<open>print\<close> the model keeps.\<close>

datatype msg =
    ErrTemplateNotFound
  | ErrModulesNotFound
  | ErrTargetExists string
  | CopyingTemplate string
  | CreatedExportDir string
  | SkippingBinary "string list"
  | ErrorProcessing "string list"
  | TemplateProcessed
  | ErrCMakeNotFound
  | AlreadyInCMake string
  | AddedToCMake string
  | NextSteps string
  | AvailableModules "string list"
  | ErrModuleNotFound string
  | RemovalCancelled
  | RemovingModule string
  | WarnCMakeNotFound
  | RemovedFromCMake string
  | WarnNotInCMake string
  | ErrUpdatingCMake
  | RemovingDirectory string
  | RemovedDirectory string
  | WarnDirectoryMissing string
  | ErrRemovingDirectory string
  | SuccessfullyRemoved string
  | PartiallyRemoved string

definition cmake_name :: string where
  "cmake_name = ''CMakeLists.txt''"

definition add_line :: "string \<Rightarrow> string" where
  "add_line module_id = ''add_subdirectory('' @ module_id @ '')''"

section \<open>createModule.py\<close>

text \<open>
  The command line as \<open>argparse\<close> hands it over: every argument is optional. The
  lines typed on standard input are a list; \<open>input()\<close> on an exhausted input raises
  \<open>EOFError\<close>, which is \<open>None\<close> here.
\<close>

record create_args =
  arg_module_id :: "string option"
  arg_name :: "string option"
  arg_description :: "string option"
  arg_brand :: "string option"
  arg_author :: "string option"
  arg_email :: "string option"
  arg_website :: "string option"

text \<open>\<open>a or b\<close> on strings: \<open>a\<close> unless it is \<open>None\<close> or empty.\<close>

fun py_or :: "string option \<Rightarrow> string \<Rightarrow> string" where
  "py_or None b = b"
| "py_or (Some a) b = (if a = [] then b else a)"

text \<open>The \<open>while True\<close> loop that prompts for the identifier until one validates.\<close>

fun prompt_module_id :: "string list \<Rightarrow> (string \<times> string list) option" where
  "prompt_module_id [] = None"
| "prompt_module_id (l # ls) =
     (let module_id = str_strip l
      in if validate_module_id module_id then Some (module_id, ls) else prompt_module_id ls)"

definition collect_module_info :: "create_args \<Rightarrow> string list \<Rightarrow> status + (string \<times> string) list" where
  "collect_module_info args stdin =
     (if py_or (arg_module_id args) [] \<noteq> [] then
        (let module_id = py_or (arg_module_id args) [] in
         if \<not> validate_module_id module_id then Inl (SysExit 1)
         else Inr
           [(''__MOD__'', module_id),
            (''__NAME__'', py_or (arg_name args) module_id),
            (''__DESCRIPTION__'', py_or (arg_description args) (py_or (arg_name args) module_id)),
            (''__BRAND__'', py_or (arg_brand args) ''YourBrand''),
            (''__AUTHOR__'', py_or (arg_author args) ''Unknown''),
            (''__EMAIL__'', py_or (arg_email args) ''unknown@example.com''),
            (''__URL__'', py_or (arg_website args) ''https://example.com'')])
      else
        (case prompt_module_id stdin of
           None \<Rightarrow> Inl Uncaught
         | Some (module_id, rest) \<Rightarrow>
             (case rest of
                l1 # l2 # l3 # l4 # l5 # l6 # _ \<Rightarrow>
                  (let name = py_or (Some (str_strip l1)) module_id;
                       description = py_or (Some (str_strip l2)) name;
                       brand = py_or (Some (str_strip l3)) ''YourBrand'';
                       author = py_or (Some (str_strip l4)) ''Unknown'';
                       email = py_or (Some (str_strip l5)) ''unknown@example.com'';
                       website = py_or (Some (str_strip l6)) ''https://example.com''
                   in Inr
                     [(''__MOD__'', module_id),
                      (''__NAME__'', name),
                      (''__DESCRIPTION__'', description),
                      (''__BRAND__'', brand),
                      (''__AUTHOR__'', author),
                      (''__EMAIL__'', email),
                      (''__URL__'', website)])
              | _ \<Rightarrow> Inl Uncaught)))"

text \<open>
  \<open>substitute_in_file\<close>: \<open>open\<close> for reading fails on an unreadable file, \<open>read\<close>
  raises \<open>UnicodeDecodeError\<close> on bytes that do not decode, the placeholders are
  replaced in the order of the dictionary, and \<open>open\<close> for writing fails (before it
  truncates) on an unwritable file. Both handlers print and return.
\<close>

definition substitute_text :: "(string \<times> string) list \<Rightarrow> string \<Rightarrow> string" where
  "substitute_text substitutions content =
     foldl (\<lambda>content (placeholder, val). str_replace placeholder val content) content substitutions"

definition substitute_in_file ::
  "string list \<Rightarrow> (string \<times> string) list \<Rightarrow> regular_file \<Rightarrow> regular_file \<times> msg list" where
  "substitute_in_file file_path substitutions f =
     (if \<not> readable f then (f, [ErrorProcessing file_path])
      else (case data f of
              Undecodable _ \<Rightarrow> (f, [SkippingBinary file_path])
            | Text content \<Rightarrow>
                (if \<not> writable f then (f, [ErrorProcessing file_path])
                 else (f\<lparr>data := Text (substitute_text substitutions content)\<rparr>, []))))"

text \<open>
  \<open>shutil.copytree\<close>: an entry that cannot be read is left out and remembered, the
  other entries are still copied, and the errors are raised together at the end.
  \<open>copy2\<close> keeps the permissions of a file.
\<close>

fun copy_entry :: "node \<Rightarrow> node option \<times> bool" where
  "copy_entry (File f) = (if readable f then (Some (File f), True) else (None, False))"
| "copy_entry (Dir entries) =
     (let results = map (\<lambda>(name, item). (name, copy_entry item)) entries
      in (Some (Dir (concat (map (\<lambda>(name, r). case fst r of None \<Rightarrow> [] | Some item' \<Rightarrow> [(name, item')]) results))),
          list_all (\<lambda>(name, r). snd r) results))"

definition copytree :: "directory \<Rightarrow> directory \<times> bool" where
  "copytree entries =
     (let results = map (\<lambda>(name, item). (name, copy_entry item)) entries
      in (concat (map (\<lambda>(name, r). case fst r of None \<Rightarrow> [] | Some item' \<Rightarrow> [(name, item')]) results),
          list_all (\<lambda>(name, r). snd r) results))"

text \<open>
  The \<open>os.walk\<close> loop: top-down, the files of a directory before its subdirectories,
  \<open>substitute_in_file\<close> on every file.
\<close>

fun is_file :: "node \<Rightarrow> bool" where
  "is_file (File _) = True"
| "is_file (Dir _) = False"

fun is_dir :: "node \<Rightarrow> bool" where
  "is_dir (File _) = False"
| "is_dir (Dir _) = True"

fun substitute_walk :: "(string \<times> string) list \<Rightarrow> string list \<Rightarrow> node \<Rightarrow> node \<times> msg list" where
  "substitute_walk substitutions path (File f) =
     (case substitute_in_file path substitutions f of (f', out) \<Rightarrow> (File f', out))"
| "substitute_walk substitutions path (Dir entries) =
     (let results =
            map (\<lambda>(name, item). (name, is_file item, substitute_walk substitutions (path @ [name]) item)) entries
      in (Dir (map (\<lambda>(name, isf, r). (name, fst r)) results),
          concat (map (\<lambda>(name, isf, r). if isf then snd r else []) results)
            @ concat (map (\<lambda>(name, isf, r). if isf then [] else snd r) results)))"

text \<open>
  \<open>copy_and_substitute\<close>; \<open>target_dir\<close> is the entry \<open>target\<close> of \<open>modules_dir\<close>.
  \<open>copytree\<close> of a template that is not a directory raises before it creates anything;
  \<open>mkdir(exist_ok=True)\<close> raises when the name is taken by a file.
\<close>

definition copy_and_substitute ::
  "node \<Rightarrow> directory \<Rightarrow> string \<Rightarrow> (string \<times> string) list \<Rightarrow> directory \<times> msg list \<times> status" where
  "copy_and_substitute template_dir modules_dir target substitutions =
     (if map_of modules_dir target \<noteq> None then (modules_dir, [ErrTargetExists target], SysExit 1)
      else (case template_dir of
              File _ \<Rightarrow> (modules_dir, [CopyingTemplate target], Uncaught)
            | Dir entries \<Rightarrow>
                (case copytree entries of (copied, ok) \<Rightarrow>
                   if \<not> ok then (AList.update target (Dir copied) modules_dir, [CopyingTemplate target], Uncaught)
                   else (case map_of substitutions ''__MOD__'' of
                           None \<Rightarrow> (AList.update target (Dir copied) modules_dir, [CopyingTemplate target], Uncaught)
                         | Some module_id \<Rightarrow>
                             (let rnbo_dir = module_id @ ''-rnbo'' in
                              case map_of copied rnbo_dir of
                                Some (File _) \<Rightarrow>
                                  (AList.update target (Dir copied) modules_dir, [CopyingTemplate target], Uncaught)
                              | made \<Rightarrow>
                                  (let tree = (if made = None then copied @ [(rnbo_dir, Dir [])] else copied) in
                                   case substitute_walk substitutions [target] (Dir tree) of (tree', out) \<Rightarrow>
                                     (AList.update target tree' modules_dir,
                                      [CopyingTemplate target, CreatedExportDir rnbo_dir] @ out @ [TemplateProcessed],
                                      Returned)))))))"

text \<open>
  \<open>update_modules_cmake\<close>. Nothing catches what \<open>open\<close> and \<open>read\<close> raise here: a
  registry that is a directory, unreadable, undecodable or unwritable ends the run.
\<close>

definition update_modules_cmake :: "directory \<Rightarrow> string \<Rightarrow> directory \<times> msg list \<times> status" where
  "update_modules_cmake modules_dir module_id =
     (case map_of modules_dir cmake_name of
        None \<Rightarrow> (modules_dir, [ErrCMakeNotFound], SysExit 1)
      | Some (Dir _) \<Rightarrow> (modules_dir, [], Uncaught)
      | Some (File f) \<Rightarrow>
          (if \<not> readable f then (modules_dir, [], Uncaught)
           else (case data f of
                   Undecodable _ \<Rightarrow> (modules_dir, [], Uncaught)
                 | Text content \<Rightarrow>
                     (if str_contains content (add_line module_id)
                      then (modules_dir, [AlreadyInCMake module_id], Returned)
                      else if \<not> writable f then (modules_dir, [], Uncaught)
                      else (AList.update cmake_name
                              (File (f\<lparr>data := Text (content @ add_line module_id @ [newline])\<rparr>)) modules_dir,
                            [AddedToCMake module_id], Returned)))))"

text \<open>\<open>main\<close> of createModule.py.\<close>

definition create_main :: "create_args \<Rightarrow> string list \<Rightarrow> world \<Rightarrow> world \<times> msg list \<times> status" where
  "create_main args stdin w =
     (case template w of
        None \<Rightarrow> (w, [ErrTemplateNotFound], SysExit 1)
      | Some template_dir \<Rightarrow>
          (case modules w of
             None \<Rightarrow> (w, [ErrModulesNotFound], SysExit 1)
           | Some modules_dir \<Rightarrow>
               (case collect_module_info args stdin of
                  Inl st \<Rightarrow> (w, [], st)
                | Inr substitutions \<Rightarrow>
                    (case map_of substitutions ''__MOD__'' of
                       None \<Rightarrow> (w, [], Uncaught)
                     | Some module_id \<Rightarrow>
                         (case copy_and_substitute template_dir modules_dir module_id substitutions of
                            (copied_dir, out1, st1) \<Rightarrow>
                              if st1 \<noteq> Returned then (w\<lparr>modules := Some copied_dir\<rparr>, out1, st1)
                              else (case update_modules_cmake copied_dir module_id of
                                      (updated_dir, out2, st2) \<Rightarrow>
                                        if st2 \<noteq> Returned
                                        then (w\<lparr>modules := Some updated_dir\<rparr>, out1 @ out2, st2)
                                        else (w\<lparr>modules := Some updated_dir\<rparr>,
                                              out1 @ out2 @ [NextSteps module_id], Returned)))))))"

section \<open>removeModule.py\<close>

text \<open>
  \<open>list_available_modules\<close> (the same function stands in test/removeAll.py): the
  loop over \<open>iterdir\<close> keeps the names of the directories outside the reserved list,
  and \<open>sorted\<close> orders them by code point.
\<close>

definition list_available_modules :: "directory \<Rightarrow> string list" where
  "list_available_modules modules_dir =
     sort (map fst (filter (\<lambda>(name, item). is_dir item \<and> name \<notin> set [''common'', ''inc'', ''.git''])
                      modules_dir))"

text \<open>\<open>confirm_removal\<close>: with \<open>--force\<close> nothing is asked; otherwise the answers are read
  until one is yes or no.\<close>

fun confirm_loop :: "string list \<Rightarrow> bool option" where
  "confirm_loop [] = None"
| "confirm_loop (l # ls) =
     (let response = str_lower (str_strip l)
      in if response \<in> set [''yes'', ''y''] then Some True
         else if response \<in> set [''no'', ''n''] then Some False
         else confirm_loop ls)"

definition confirm_removal :: "bool \<Rightarrow> string list \<Rightarrow> bool option" where
  "confirm_removal force stdin = (if force then Some True else confirm_loop stdin)"

text \<open>
  \<open>remove_module_directory\<close>: \<open>shutil.rmtree\<close> raises on a path that is not a
  directory, and the handler returns \<open>False\<close>. Removing a directory is taken to succeed.
\<close>

definition remove_module_directory :: "directory \<Rightarrow> string \<Rightarrow> directory \<times> msg list \<times> bool" where
  "remove_module_directory modules_dir module_id =
     (case map_of modules_dir module_id of
        None \<Rightarrow> (modules_dir, [WarnDirectoryMissing module_id], False)
      | Some (Dir _) \<Rightarrow>
          (AList.delete module_id modules_dir, [RemovingDirectory module_id, RemovedDirectory module_id], True)
      | Some (File _) \<Rightarrow>
          (modules_dir, [RemovingDirectory module_id, ErrRemovingDirectory module_id], False))"

text \<open>
  \<open>remove_from_cmake\<close>: every exception is caught and gives \<open>False\<close>. The file is
  opened for writing only when a line was dropped.
\<close>

definition remove_from_cmake :: "directory \<Rightarrow> string \<Rightarrow> directory \<times> msg list \<times> bool" where
  "remove_from_cmake modules_dir module_id =
     (case map_of modules_dir cmake_name of
        None \<Rightarrow> (modules_dir, [WarnCMakeNotFound], False)
      | Some (Dir _) \<Rightarrow> (modules_dir, [ErrUpdatingCMake], False)
      | Some (File f) \<Rightarrow>
          (if \<not> readable f then (modules_dir, [ErrUpdatingCMake], False)
           else (case data f of
                   Undecodable _ \<Rightarrow> (modules_dir, [ErrUpdatingCMake], False)
                 | Text content \<Rightarrow>
                     (let lines = readlines content;
                          target_line = add_line module_id @ [newline];
                          original_count = length lines;
                          lines' = filter (\<lambda>line. str_strip line \<noteq> str_strip target_line) lines
                      in if length lines' < original_count then
                           (if \<not> writable f then (modules_dir, [ErrUpdatingCMake], False)
                            else (AList.update cmake_name (File (f\<lparr>data := Text (concat lines')\<rparr>)) modules_dir,
                                  [RemovedFromCMake module_id], True))
                         else (modules_dir, [WarnNotInCMake module_id], False)))))"

text \<open>
  \<open>main\<close> of removeModule.py once the module to remove is known: \<open>module_id\<close> is
  the non-empty identifier given on the command line. The menu that picks one of the
  listed modules when no identifier is given is not modelled.
\<close>

record remove_args =
  rm_module_id :: string
  rm_force :: bool
  rm_list :: bool

definition remove_main :: "remove_args \<Rightarrow> string list \<Rightarrow> world \<Rightarrow> world \<times> msg list \<times> status" where
  "remove_main args stdin w =
     (case modules w of
        None \<Rightarrow> (w, [ErrModulesNotFound], SysExit 1)
      | Some modules_dir \<Rightarrow>
          (let available_modules = list_available_modules modules_dir;
               module_id = rm_module_id args
           in if rm_list args then (w, [AvailableModules available_modules], SysExit 0)
              else if map_of modules_dir module_id = None
              then (w, [ErrModuleNotFound module_id]
                          @ (if available_modules \<noteq> [] then [AvailableModules available_modules] else []),
                    SysExit 1)
              else (case confirm_removal (rm_force args) stdin of
                      None \<Rightarrow> (w, [], Uncaught)
                    | Some False \<Rightarrow> (w, [RemovalCancelled], SysExit 0)
                    | Some True \<Rightarrow>
                        (case remove_from_cmake modules_dir module_id of
                           (dir1, out1, removed1) \<Rightarrow>
                             (case remove_module_directory dir1 module_id of
                                (dir2, out2, removed2) \<Rightarrow>
                                  (let success = True;
                                       success = (if \<not> removed1 then False else success);
                                       success = (if \<not> removed2 then False else success)
                                   in if success
                                      then (w\<lparr>modules := Some dir2\<rparr>,
                                            [RemovingModule module_id] @ out1 @ out2 @ [SuccessfullyRemoved module_id],
                                            Returned)
                                      else (w\<lparr>modules := Some dir2\<rparr>,
                                            [RemovingModule module_id] @ out1 @ out2 @ [PartiallyRemoved module_id],
                                            SysExit 1)))))))"

section \<open>Notions the statements use\<close>

text \<open>
  A line for an identifier is a line of the registry whose trimmed content is the
  directive; the registry text is the text of \<open>modules/CMakeLists.txt\<close> when that is a
  readable file that decodes.
\<close>

definition is_line_for :: "string \<Rightarrow> string \<Rightarrow> bool" where
  "is_line_for module_id line = (str_strip line = add_line module_id)"

definition lines_for :: "string \<Rightarrow> string \<Rightarrow> string list" where
  "lines_for module_id content = filter (is_line_for module_id) (readlines content)"

definition registry_text :: "directory \<Rightarrow> string option" where
  "registry_text modules_dir =
     (case map_of modules_dir cmake_name of
        Some (File f) \<Rightarrow> (case data f of Text content \<Rightarrow> if readable f then Some content else None
                                       | Undecodable _ \<Rightarrow> None)
      | _ \<Rightarrow> None)"

definition registry_has_line :: "world \<Rightarrow> string \<Rightarrow> bool" where
  "registry_has_line w module_id =
     (case modules w of
        None \<Rightarrow> False
      | Some modules_dir \<Rightarrow>
          (case registry_text modules_dir of
             None \<Rightarrow> False
           | Some content \<Rightarrow> lines_for module_id content \<noteq> []))"

definition module_dir_exists :: "world \<Rightarrow> string \<Rightarrow> bool" where
  "module_dir_exists w module_id =
     (case modules w of
        None \<Rightarrow> False
      | Some modules_dir \<Rightarrow> (case map_of modules_dir module_id of Some (Dir _) \<Rightarrow> True | _ \<Rightarrow> False))"

text \<open>A registry file that can be read and written, holding the given text.\<close>

definition text_file :: "string \<Rightarrow> node" where
  "text_file content = File \<lparr>data = Text content, readable = True, writable = True\<rparr>"

text \<open>
  What a list of lines read from a text looks like: no line is empty, a newline stands
  only at the end of a line, and every line but the last ends with one.
\<close>

fun line_list :: "string list \<Rightarrow> bool" where
  "line_list [] = True"
| "line_list [l] = (l \<noteq> [] \<and> newline \<notin> set (butlast l))"
| "line_list (l # ls) = (l \<noteq> [] \<and> last l = newline \<and> newline \<notin> set (butlast l) \<and> line_list ls)"

text \<open>
  The registry after \<open>add\<close> as the specification words it: unchanged when a line for
  the identifier exists, and otherwise the old lines followed by the directive as a new
  line.
\<close>

definition spec_add_lines :: "string \<Rightarrow> string \<Rightarrow> string list" where
  "spec_add_lines module_id content =
     (if lines_for module_id content \<noteq> [] then readlines content
      else readlines content @ [add_line module_id @ [newline]])"










section \<open>The validator, the registry and the listing\<close>

text \<open>The definitions that are unfolded where a statement is evaluated on a concrete input.\<close>

lemmas char_defs = newline_def char_isspace_def ascii_whitespace_def add_line_def cmake_name_def
  text_file_def

lemmas validate_defs = validate_module_id_def str_isalnum_def char_isalnum_def char_isalpha_def
  str_upper_def char_upper_def ascii_lowercase_def ascii_uppercase_def ascii_digits_def

lemmas create_defs = create_main_def collect_module_info_def copy_and_substitute_def copytree_def
  update_modules_cmake_def substitute_in_file_def substitute_text_def str_replace_def str_strip_def
  char_isspace_def ascii_whitespace_def add_line_def cmake_name_def text_file_def newline_def Let_def

lemmas remove_defs = remove_main_def remove_from_cmake_def remove_module_directory_def confirm_removal_def
  list_available_modules_def

lemmas notion_defs = module_dir_exists_def registry_has_line_def registry_text_def lines_for_def is_line_for_def




lemma readlines_line:
  "newline \<notin> set body \<Longrightarrow> readlines (body @ newline # rest) = (body @ [newline]) # readlines rest"
  by (induction body) auto

lemma readlines_Nil_iff: "readlines s = [] \<longleftrightarrow> s = []"
  by (cases s) (auto split: list.splits)

lemma readlines_last:
  "newline \<notin> set body \<Longrightarrow> body \<noteq> [] \<Longrightarrow> readlines body = [body]"
proof (induction body)
  case Nil
  then show ?case by simp
next
  case (Cons c cs)
  then show ?case
    by (cases cs) (auto simp: readlines_Nil_iff)
qed

lemma concat_readlines: "concat (readlines s) = s"
  by (induction s) (auto split: list.splits)

lemma str_strip_add_line: "str_strip (add_line I @ [newline]) = add_line I"
  by (simp add: str_strip_def add_line_def char_isspace_def ascii_whitespace_def newline_def)

lemma str_strip_add_line': "str_strip (add_line I) = add_line I"
  by (simp add: str_strip_def add_line_def char_isspace_def ascii_whitespace_def newline_def)

lemma str_contains_iff: "str_contains s sub \<longleftrightarrow> (\<exists>ps ss. s = ps @ sub @ ss)"
proof (induction s)
  case Nil
  then show ?case by auto
next
  case (Cons c cs)
  show ?case
  proof
    assume "str_contains (c # cs) sub"
    then consider "prefix sub (c # cs)" | "str_contains cs sub" by auto
    then show "\<exists>ps ss. c # cs = ps @ sub @ ss"
    proof cases
      case 1
      then obtain ss where "c # cs = sub @ ss" by (auto simp: prefix_def)
      then have "c # cs = [] @ sub @ ss" by simp
      then show ?thesis by blast
    next
      case 2
      with Cons obtain ps ss where "cs = ps @ sub @ ss" by auto
      then have "c # cs = (c # ps) @ sub @ ss" by simp
      then show ?thesis by blast
    qed
  next
    assume "\<exists>ps ss. c # cs = ps @ sub @ ss"
    then obtain ps ss where eq: "c # cs = ps @ sub @ ss" by auto
    show "str_contains (c # cs) sub"
    proof (cases ps)
      case Nil
      with eq have "prefix sub (c # cs)" by (auto simp: prefix_def)
      then show ?thesis by simp
    next
      case (Cons p ps')
      with eq have "cs = ps' @ sub @ ss" by simp
      with Cons.IH show ?thesis by auto
    qed
  qed
qed

lemma str_strip_decomp: "\<exists>a b. l = a @ str_strip l @ b"
proof -
  let ?m = "dropWhile char_isspace l"
  have 1: "l = takeWhile char_isspace l @ ?m" by simp
  have "rev ?m = takeWhile char_isspace (rev ?m) @ dropWhile char_isspace (rev ?m)" by simp
  then have "?m = rev (dropWhile char_isspace (rev ?m)) @ rev (takeWhile char_isspace (rev ?m))"
    by (metis rev_append rev_rev_ident)
  then have "?m = str_strip l @ rev (takeWhile char_isspace (rev ?m))"
    by (simp add: str_strip_def)
  with 1 show ?thesis by metis
qed

lemma line_list_Cons:
  "line_list (l # ls) \<longleftrightarrow>
     l \<noteq> [] \<and> newline \<notin> set (butlast l) \<and> (ls = [] \<or> last l = newline) \<and> line_list ls"
  by (cases ls) auto

lemma line_list_readlines: "line_list (readlines s)"
proof (induction s)
  case Nil
  then show ?case by simp
next
  case (Cons c cs)
  then show ?case
    by (auto simp: line_list_Cons readlines_Nil_iff split: list.splits)
qed

lemma line_list_filter: "line_list ls \<Longrightarrow> line_list (filter P ls)"
  by (induction ls) (auto simp: line_list_Cons)

lemma readlines_concat: "line_list ls \<Longrightarrow> readlines (concat ls) = ls"
proof (induction ls)
  case Nil
  then show ?case by simp
next
  case (Cons l ls)
  then have l: "l \<noteq> []" "newline \<notin> set (butlast l)" and ls: "line_list ls"
    and e: "ls = [] \<or> last l = newline"
    by (auto simp: line_list_Cons)
  show ?case
  proof (cases "last l = newline")
    case True
    with l have eq: "l = butlast l @ [newline]"
      by (metis append_butlast_last_id)
    define body where "body = butlast l"
    from eq have lb: "body @ [newline] = l" by (simp add: body_def)
    have "readlines (concat (l # ls)) = readlines ((body @ [newline]) @ concat ls)"
      by (simp only: lb concat.simps)
    also have "\<dots> = readlines (body @ newline # concat ls)" by simp
    also have "\<dots> = (body @ [newline]) # readlines (concat ls)"
      using l(2) by (simp add: readlines_line body_def)
    also have "\<dots> = l # ls" using Cons.IH ls lb by simp
    finally show ?thesis .
  next
    case False
    with e have "ls = []" by simp
    moreover have "newline \<notin> set l"
      using False l by (metis append_butlast_last_id rotate1.simps(2) set_ConsD set_rotate1)
    ultimately show ?thesis using l(1) by (simp add: readlines_last)
  qed
qed

lemma readlines_append:
  "content = [] \<or> last content = newline \<Longrightarrow> readlines (content @ rest) = readlines content @ readlines rest"
proof (induction content)
  case Nil
  then show ?case by simp
next
  case (Cons c cs)
  then show ?case
    by (cases "cs = []") (auto simp: readlines_Nil_iff split: list.splits)
qed

lemma readlines_append_unterminated:
  "content \<noteq> [] \<Longrightarrow> last content \<noteq> newline \<Longrightarrow> newline \<notin> set body \<Longrightarrow>
   readlines (content @ body @ [newline])
     = butlast (readlines content) @ [last (readlines content) @ body @ [newline]]"
proof (induction content)
  case Nil
  then show ?case by simp
next
  case (Cons c cs)
  show ?case
  proof (cases "cs = []")
    case True
    with Cons.prems have "c \<noteq> newline" by simp
    with Cons.prems True show ?thesis
      using readlines_line [of "c # body" "[]"] by simp
  next
    case False
    with Cons have IH: "readlines (cs @ body @ [newline])
       = butlast (readlines cs) @ [last (readlines cs) @ body @ [newline]]" by simp
    from False have ne: "readlines cs \<noteq> []" by (simp add: readlines_Nil_iff)
    then obtain l ls where r: "readlines cs = l # ls" by (cases "readlines cs") auto
    show ?thesis
      using IH r by (cases "ls = []") (auto split: list.splits)
  qed
qed

lemma is_line_for_contains:
  assumes "l \<in> set (readlines content)" "is_line_for I l"
  shows "str_contains content (add_line I)"
proof -
  from assms(1) obtain xs ys where "readlines content = xs @ l # ys"
    by (meson split_list)
  then have "concat (readlines content) = concat xs @ l @ concat ys" by simp
  then have c: "content = concat xs @ l @ concat ys" by (simp add: concat_readlines)
  obtain a b where "l = a @ str_strip l @ b" using str_strip_decomp by blast
  with assms(2) have "l = a @ add_line I @ b" by (simp add: is_line_for_def)
  with c have "content = (concat xs @ a) @ add_line I @ (b @ concat ys)" by simp
  then show ?thesis unfolding str_contains_iff by blast
qed

lemma lines_for_contains: "lines_for I content \<noteq> [] \<Longrightarrow> str_contains content (add_line I)"
proof -
  assume "lines_for I content \<noteq> []"
  then obtain l where "l \<in> set (readlines content)" "is_line_for I l"
    unfolding lines_for_def by (metis filter_False)
  then show ?thesis by (rule is_line_for_contains)
qed

lemma filter_compl_shorter:
  "length (filter (\<lambda>x. \<not> P x) xs) < length xs \<longleftrightarrow> filter P xs \<noteq> []"
  using sum_length_filter_compl [of P xs] by (cases "filter P xs") auto

lemma map_of_update_same: "map_of (AList.update k v al) k = Some v"
  by (simp add: update_conv')

lemma remove_from_cmake_eq:
  assumes "map_of modules_dir cmake_name = Some (File f)" "readable f" "data f = Text content"
  shows "remove_from_cmake modules_dir I =
     (if lines_for I content = [] then (modules_dir, [WarnNotInCMake I], False)
      else if \<not> writable f then (modules_dir, [ErrUpdatingCMake], False)
      else (AList.update cmake_name
              (File (f\<lparr>data := Text (concat (filter (\<lambda>l. \<not> is_line_for I l) (readlines content)))\<rparr>))
              modules_dir,
            [RemovedFromCMake I], True))"
proof -
  have "length (filter (\<lambda>l. \<not> is_line_for I l) (readlines content)) < length (readlines content)
          \<longleftrightarrow> lines_for I content \<noteq> []"
    unfolding lines_for_def by (rule filter_compl_shorter)
  then show ?thesis
    using assms
    by (simp add: remove_from_cmake_def Let_def str_strip_add_line is_line_for_def [symmetric])
qed



lemma update_modules_cmake_eq:
  assumes "map_of modules_dir cmake_name = Some (File f)" "readable f" "data f = Text content"
  shows "update_modules_cmake modules_dir I =
     (if str_contains content (add_line I) then (modules_dir, [AlreadyInCMake I], Returned)
      else if \<not> writable f then (modules_dir, [], Uncaught)
      else (AList.update cmake_name (File (f\<lparr>data := Text (content @ add_line I @ [newline])\<rparr>)) modules_dir,
            [AddedToCMake I], Returned))"
  using assms by (simp add: update_modules_cmake_def)

lemma newline_notin_add_line: "newline \<notin> set I \<Longrightarrow> newline \<notin> set (add_line I)"
  by (auto simp: add_line_def newline_def)

lemma readlines_directive: "newline \<notin> set I \<Longrightarrow> readlines (add_line I @ [newline]) = [add_line I @ [newline]]"
  using readlines_line [of "add_line I" "[]"] by (simp add: newline_notin_add_line)

text \<open>
  Claim C4 (amended): \<open>update_modules_cmake\<close> changes nothing and reports the module as already
  present when the directive occurs anywhere in the text, which is the case whenever a
  line for the identifier exists; otherwise it appends the directive and one newline to
  the end of the text, which is a new last line when the text is empty or ends with a
  newline.
\<close>

theorem update_modules_cmake_text:
  assumes "map_of modules_dir cmake_name = Some (File f)" "readable f" "writable f" "data f = Text content"
  shows "update_modules_cmake modules_dir I =
     (if str_contains content (add_line I) then (modules_dir, [AlreadyInCMake I], Returned)
      else (AList.update cmake_name (File (f\<lparr>data := Text (content @ add_line I @ [newline])\<rparr>)) modules_dir,
            [AddedToCMake I], Returned))
     \<and> (lines_for I content \<noteq> [] \<longrightarrow> str_contains content (add_line I))
     \<and> ((content = [] \<or> last content = newline) \<and> newline \<notin> set I \<longrightarrow>
          readlines (content @ add_line I @ [newline]) = readlines content @ [add_line I @ [newline]])"
  using update_modules_cmake_eq [OF assms(1,2,4)] assms(3)
  by (simp add: lines_for_contains readlines_append readlines_directive)

theorem update_modules_cmake_text_witness:
  "update_modules_cmake [(cmake_name, text_file (''add_subdirectory(TEST)'' @ [newline]))] ''VERB''
     = ([(cmake_name, text_file (''add_subdirectory(TEST)'' @ [newline] @ ''add_subdirectory(VERB)'' @ [newline]))],
        [AddedToCMake ''VERB''], Returned)
   \<and> readlines (''add_subdirectory(TEST)'' @ [newline] @ ''add_subdirectory(VERB)'' @ [newline])
       = [''add_subdirectory(TEST)'' @ [newline], ''add_subdirectory(VERB)'' @ [newline]]
   \<and> update_modules_cmake [(cmake_name, text_file (''add_subdirectory(TEST)'' @ [newline]))] ''TEST''
     = ([(cmake_name, text_file (''add_subdirectory(TEST)'' @ [newline]))], [AlreadyInCMake ''TEST''], Returned)
   \<and> lines_for ''TEST'' (''add_subdirectory(TEST)'' @ [newline]) \<noteq> []"
  using update_modules_cmake_text
    [of "[(cmake_name, text_file (''add_subdirectory(TEST)'' @ [newline]))]"
        "\<lparr>data = Text (''add_subdirectory(TEST)'' @ [newline]), readable = True, writable = True\<rparr>"
        "''add_subdirectory(TEST)'' @ [newline]" "''VERB''"]
    update_modules_cmake_text
    [of "[(cmake_name, text_file (''add_subdirectory(TEST)'' @ [newline]))]"
        "\<lparr>data = Text (''add_subdirectory(TEST)'' @ [newline]), readable = True, writable = True\<rparr>"
        "''add_subdirectory(TEST)'' @ [newline]" "''TEST''"]
  by (simp add: char_defs lines_for_def is_line_for_def str_strip_def)

text \<open>
  Claim C4 (as stated): the registry after \<open>update_modules_cmake\<close> is not the one the claim
  describes: a comment that mentions the directive makes the call a no-op although no
  line for the identifier exists, and after a last line without newline the directive
  is not a line of its own.
\<close>

theorem update_modules_cmake_counterexample:
  "map_option readlines
     (registry_text (fst (update_modules_cmake
        [(cmake_name, text_file (''# add_subdirectory(ABCD)'' @ [newline]))] ''ABCD'')))
     \<noteq> Some (spec_add_lines ''ABCD'' (''# add_subdirectory(ABCD)'' @ [newline]))
   \<and> map_option readlines
     (registry_text (fst (update_modules_cmake [(cmake_name, text_file ''add_subdirectory(TEST)'')] ''ABCD'')))
     \<noteq> Some (spec_add_lines ''ABCD'' ''add_subdirectory(TEST)'')"
  by (simp add: char_defs update_modules_cmake_def registry_text_def spec_add_lines_def lines_for_def
      is_line_for_def str_strip_def)

lemma update_modules_cmake_unchanged_or:
  "fst (update_modules_cmake modules_dir I) = modules_dir
   \<or> (\<exists>f content. map_of modules_dir cmake_name = Some (File f) \<and> readable f \<and> writable f
        \<and> data f = Text content \<and> \<not> str_contains content (add_line I)
        \<and> update_modules_cmake modules_dir I =
            (AList.update cmake_name (File (f\<lparr>data := Text (content @ add_line I @ [newline])\<rparr>)) modules_dir,
             [AddedToCMake I], Returned))"
  by (auto simp: update_modules_cmake_def split: option.splits node.splits content.splits)

lemma str_contains_appended: "str_contains (content @ d @ rest) d"
  unfolding str_contains_iff by blast

lemma update_modules_cmake_twice:
  "fst (update_modules_cmake (fst (update_modules_cmake modules_dir I)) I)
     = fst (update_modules_cmake modules_dir I)"
proof -
  consider "fst (update_modules_cmake modules_dir I) = modules_dir"
    | f content where "map_of modules_dir cmake_name = Some (File f)" "readable f" "writable f"
        "data f = Text content"
        "update_modules_cmake modules_dir I =
            (AList.update cmake_name (File (f\<lparr>data := Text (content @ add_line I @ [newline])\<rparr>)) modules_dir,
             [AddedToCMake I], Returned)"
    using update_modules_cmake_unchanged_or [of modules_dir I] by blast
  then show ?thesis
  proof cases
    case 1
    then show ?thesis by simp
  next
    case 2
    let ?f' = "f\<lparr>data := Text (content @ add_line I @ [newline])\<rparr>"
    let ?d' = "AList.update cmake_name (File ?f') modules_dir"
    have "map_of ?d' cmake_name = Some (File ?f')" by (rule map_of_update_same)
    moreover have "readable ?f'" "data ?f' = Text (content @ add_line I @ [newline])"
      using 2 by simp_all
    ultimately have "update_modules_cmake ?d' I = (?d', [AlreadyInCMake I], Returned)"
      using update_modules_cmake_eq [of ?d' ?f' "content @ add_line I @ [newline]" I]
      by (simp add: str_contains_appended)
    with 2 show ?thesis by simp
  qed
qed

lemma lines_for_added:
  assumes "\<not> str_contains content (add_line I)" "content = [] \<or> last content = newline" "newline \<notin> set I"
  shows "lines_for I (content @ add_line I @ [newline]) = [add_line I @ [newline]]"
proof -
  have "lines_for I content = []" using assms(1) lines_for_contains by blast
  moreover have "readlines (content @ add_line I @ [newline]) = readlines content @ [add_line I @ [newline]]"
    using assms by (simp add: readlines_append readlines_directive)
  ultimately show ?thesis
    by (simp add: lines_for_def is_line_for_def str_strip_add_line)
qed

lemma registry_text_update:
  "readable f \<Longrightarrow> registry_text (AList.update cmake_name (File (f\<lparr>data := Text c\<rparr>)) modules_dir) = Some c"
  by (simp add: registry_text_def map_of_update_same)

text \<open>
  Claim C8 (amended): adding twice leaves the directory that adding once leaves; from a writable
  registry that is empty or ends with a newline and in which the directive does not
  occur, the result holds exactly one line for the identifier.
\<close>

theorem update_modules_cmake_idempotent:
  "fst (update_modules_cmake (fst (update_modules_cmake modules_dir I)) I)
     = fst (update_modules_cmake modules_dir I)
   \<and> (map_of modules_dir cmake_name = Some (File f) \<and> readable f \<and> writable f \<and> data f = Text content
        \<and> \<not> str_contains content (add_line I) \<and> (content = [] \<or> last content = newline)
        \<and> newline \<notin> set I
      \<longrightarrow> registry_text (fst (update_modules_cmake modules_dir I)) = Some (content @ add_line I @ [newline])
          \<and> lines_for I (content @ add_line I @ [newline]) = [add_line I @ [newline]])"
proof -
  have "registry_text (fst (update_modules_cmake modules_dir I)) = Some (content @ add_line I @ [newline])"
    if "map_of modules_dir cmake_name = Some (File f)" "readable f" "writable f" "data f = Text content"
       "\<not> str_contains content (add_line I)"
    using update_modules_cmake_eq [OF that(1,2,4), of I] that by (simp add: registry_text_update)
  then show ?thesis
    using update_modules_cmake_twice lines_for_added by blast
qed

theorem update_modules_cmake_idempotent_witness:
  "fst (update_modules_cmake (fst (update_modules_cmake
          [(cmake_name, text_file (''add_subdirectory(TEST)'' @ [newline]))] ''VERB'')) ''VERB'')
     = [(cmake_name, text_file (''add_subdirectory(TEST)'' @ [newline] @ ''add_subdirectory(VERB)'' @ [newline]))]
   \<and> lines_for ''VERB'' (''add_subdirectory(TEST)'' @ [newline] @ ''add_subdirectory(VERB)'' @ [newline])
       = [''add_subdirectory(VERB)'' @ [newline]]"
  using update_modules_cmake_idempotent
    [of "[(cmake_name, text_file (''add_subdirectory(TEST)'' @ [newline]))]" "''VERB''"
        "\<lparr>data = Text (''add_subdirectory(TEST)'' @ [newline]), readable = True, writable = True\<rparr>"
        "''add_subdirectory(TEST)'' @ [newline]"]
  by (simp add: char_defs update_modules_cmake_def)

text \<open>
  Claim C8 (as stated): from a registry with no line for the identifier, adding twice can
  leave no line for it: the directive may stand in a comment, or the last line may have
  no newline.
\<close>

theorem update_modules_cmake_idempotent_counterexample:
  "lines_for ''ABCD'' (''# add_subdirectory(ABCD)'' @ [newline]) = []
   \<and> map_option (lines_for ''ABCD'')
       (registry_text (fst (update_modules_cmake (fst (update_modules_cmake
          [(cmake_name, text_file (''# add_subdirectory(ABCD)'' @ [newline]))] ''ABCD'')) ''ABCD'')))
     = Some []
   \<and> lines_for ''ABCD'' ''add_subdirectory(TEST)'' = []
   \<and> map_option (lines_for ''ABCD'')
       (registry_text (fst (update_modules_cmake (fst (update_modules_cmake
          [(cmake_name, text_file ''add_subdirectory(TEST)'')] ''ABCD'')) ''ABCD'')))
     = Some []"
  by (simp add: char_defs update_modules_cmake_def registry_text_def lines_for_def
      is_line_for_def str_strip_def)

lemma str_strip_joined:
  assumes "c \<in> set l" "\<not> char_isspace c"
  shows "str_strip (l @ add_line I @ [newline]) = dropWhile char_isspace l @ add_line I"
proof -
  have 1: "dropWhile char_isspace (l @ add_line I @ [newline]) = dropWhile char_isspace l @ add_line I @ [newline]"
    using assms by (simp add: dropWhile_append1)
  have 2: "dropWhile char_isspace (rev (add_line I @ [newline]) @ r) = rev (add_line I) @ r" for r
    by (simp add: add_line_def char_isspace_def ascii_whitespace_def newline_def)
  have "rev (dropWhile char_isspace l @ add_line I @ [newline])
          = rev (add_line I @ [newline]) @ rev (dropWhile char_isspace l)" by simp
  then show ?thesis
    unfolding str_strip_def 1 by (simp only: 2) simp
qed

text \<open>
  Claim C10: the appended text is the directive and one newline whatever the old ending; when
  the last line has no newline and holds a character that is not white space, the
  directive is joined onto it, the joined line does not trim to the directive and the
  registry holds no line for the identifier.
\<close>

theorem update_modules_cmake_joins_last_line:
  assumes "map_of modules_dir cmake_name = Some (File f)" "readable f" "writable f" "data f = Text content"
    and "content \<noteq> []" "last content \<noteq> newline" "\<not> str_contains content (add_line I)"
    and "newline \<notin> set I" "\<exists>c \<in> set (last (readlines content)). \<not> char_isspace c"
  shows "update_modules_cmake modules_dir I =
           (AList.update cmake_name (File (f\<lparr>data := Text (content @ add_line I @ [newline])\<rparr>)) modules_dir,
            [AddedToCMake I], Returned)
     \<and> readlines (content @ add_line I @ [newline])
         = butlast (readlines content) @ [last (readlines content) @ add_line I @ [newline]]
     \<and> \<not> is_line_for I (last (readlines content) @ add_line I @ [newline])
     \<and> lines_for I (content @ add_line I @ [newline]) = []"
proof -
  let ?l = "last (readlines content)"
  have upd: "update_modules_cmake modules_dir I =
           (AList.update cmake_name (File (f\<lparr>data := Text (content @ add_line I @ [newline])\<rparr>)) modules_dir,
            [AddedToCMake I], Returned)"
    using update_modules_cmake_eq [OF assms(1,2,4), of I] assms(3,7) by simp
  have rl: "readlines (content @ add_line I @ [newline]) = butlast (readlines content) @ [?l @ add_line I @ [newline]]"
    using assms(5,6,8) by (simp add: readlines_append_unterminated newline_notin_add_line)
  from assms(9) obtain c where c: "c \<in> set ?l" "\<not> char_isspace c" by blast
  then have "str_strip (?l @ add_line I @ [newline]) = dropWhile char_isspace ?l @ add_line I"
    by (rule str_strip_joined)
  moreover have "dropWhile char_isspace ?l \<noteq> []"
    using c by (auto simp: dropWhile_eq_Nil_conv)
  ultimately have nl: "\<not> is_line_for I (?l @ add_line I @ [newline])"
    by (simp add: is_line_for_def)
  have "\<not> is_line_for I l" if "l \<in> set (readlines content)" for l
    using that assms(7) is_line_for_contains by blast
  then have "filter (is_line_for I) (butlast (readlines content)) = []"
    by (auto simp: filter_empty_conv dest: in_set_butlastD)
  with nl have "lines_for I (content @ add_line I @ [newline]) = []"
    by (simp add: lines_for_def rl)
  with upd rl nl show ?thesis by simp
qed

theorem update_modules_cmake_joins_last_line_witness:
  "update_modules_cmake [(cmake_name, text_file ''add_subdirectory(TEST)'')] ''VERB''
     = ([(cmake_name, text_file (''add_subdirectory(TEST)add_subdirectory(VERB)'' @ [newline]))],
        [AddedToCMake ''VERB''], Returned)
   \<and> readlines (''add_subdirectory(TEST)add_subdirectory(VERB)'' @ [newline])
       = [''add_subdirectory(TEST)add_subdirectory(VERB)'' @ [newline]]
   \<and> \<not> is_line_for ''VERB'' (''add_subdirectory(TEST)add_subdirectory(VERB)'' @ [newline])
   \<and> lines_for ''VERB'' (''add_subdirectory(TEST)add_subdirectory(VERB)'' @ [newline]) = []"
  using update_modules_cmake_joins_last_line
    [of "[(cmake_name, text_file ''add_subdirectory(TEST)'')]"
        "\<lparr>data = Text ''add_subdirectory(TEST)'', readable = True, writable = True\<rparr>"
        "''add_subdirectory(TEST)''" "''VERB''"]
  by (simp add: char_defs)

text \<open>
  Claim C9: for a directory whose entry names are distinct, the listing holds exactly the
  names of the entries that are directories and are not reserved, no name of a regular
  file, no name twice, in ascending order.
\<close>

theorem list_available_modules_spec:
  assumes "distinct (map fst modules_dir)"
  shows "set (list_available_modules modules_dir)
           = {name. \<exists>item. (name, item) \<in> set modules_dir \<and> is_dir item
                      \<and> name \<notin> {''common'', ''inc'', ''.git''}}
     \<and> (\<forall>name f. (name, File f) \<in> set modules_dir \<longrightarrow> name \<notin> set (list_available_modules modules_dir))
     \<and> distinct (list_available_modules modules_dir)
     \<and> sorted (list_available_modules modules_dir)"
proof -
  let ?P = "\<lambda>(name, item). is_dir item \<and> name \<notin> set [''common'', ''inc'', ''.git'']"
  have s: "set (list_available_modules modules_dir)
           = {name. \<exists>item. (name, item) \<in> set modules_dir \<and> is_dir item
                      \<and> name \<notin> {''common'', ''inc'', ''.git''}}"
    by (auto simp: list_available_modules_def image_iff)
  have "name \<notin> set (list_available_modules modules_dir)" if "(name, File f) \<in> set modules_dir" for name f
  proof
    assume "name \<in> set (list_available_modules modules_dir)"
    with s obtain item where "(name, item) \<in> set modules_dir" "is_dir item" by auto
    with that assms have "item = File f" by (meson eq_key_imp_eq_value)
    with \<open>is_dir item\<close> show False by simp
  qed
  moreover have "distinct (map fst (filter ?P modules_dir))"
    using assms by (rule distinct_map_filter)
  then have "distinct (list_available_modules modules_dir)"
    by (simp add: list_available_modules_def)
  moreover have "sorted (list_available_modules modules_dir)"
    by (simp add: list_available_modules_def)
  ultimately show ?thesis using s by blast
qed

theorem list_available_modules_spec_witness:
  "distinct (map fst [(''VERB'', Dir []), (cmake_name, text_file ''''), (''common'', Dir []),
                      (''ABCD'', Dir [(''ABCD-rnbo'', Dir [])]), (''inc'', Dir []), (''.git'', Dir []),
                      (''NOTE'', text_file ''x'')])
   \<and> list_available_modules
       [(''VERB'', Dir []), (cmake_name, text_file ''''), (''common'', Dir []),
        (''ABCD'', Dir [(''ABCD-rnbo'', Dir [])]), (''inc'', Dir []), (''.git'', Dir []),
        (''NOTE'', text_file ''x'')] = [''ABCD'', ''VERB'']
   \<and> ''NOTE'' \<notin> set (list_available_modules
       [(''VERB'', Dir []), (cmake_name, text_file ''''), (''common'', Dir []),
        (''ABCD'', Dir [(''ABCD-rnbo'', Dir [])]), (''inc'', Dir []), (''.git'', Dir []),
        (''NOTE'', text_file ''x'')])"
  using list_available_modules_spec
    [of "[(''VERB'', Dir []), (cmake_name, text_file ''''), (''common'', Dir []),
        (''ABCD'', Dir [(''ABCD-rnbo'', Dir [])]), (''inc'', Dir []), (''.git'', Dir []),
        (''NOTE'', text_file ''x'')]"]
  by (simp add: list_available_modules_def char_defs)

section \<open>The substitution of placeholders\<close>


































section \<open>The two scripts as a whole\<close>










lemma collect_module_info_given:
  assumes "arg_module_id args = Some I" "I \<noteq> []"
  shows "collect_module_info args stdin =
     (if \<not> validate_module_id I then Inl (SysExit 1)
      else Inr [(''__MOD__'', I),
            (''__NAME__'', py_or (arg_name args) I),
            (''__DESCRIPTION__'', py_or (arg_description args) (py_or (arg_name args) I)),
            (''__BRAND__'', py_or (arg_brand args) ''YourBrand''),
            (''__AUTHOR__'', py_or (arg_author args) ''Unknown''),
            (''__EMAIL__'', py_or (arg_email args) ''unknown@example.com''),
            (''__URL__'', py_or (arg_website args) ''https://example.com'')])"
  using assms by (simp add: collect_module_info_def Let_def)


lemma world_modules_same: "modules w = Some ms \<Longrightarrow> w\<lparr>modules := Some ms\<rparr> = w"
  by simp




lemma validate_module_id_facts:
  assumes "validate_module_id X"
  shows "X \<noteq> cmake_name" "newline \<notin> set X" "X \<noteq> []"
proof -
  from assms have l: "length X = 4" and a: "list_all char_isalnum X"
    by (auto simp: validate_module_id_def str_isalnum_def split: if_splits)
  from l show "X \<noteq> cmake_name" "X \<noteq> []" by (auto simp: cmake_name_def)
  have "\<not> char_isalnum newline"
    by (simp add: char_isalnum_def char_isalpha_def ascii_lowercase_def ascii_uppercase_def
        ascii_digits_def newline_def)
  with a show "newline \<notin> set X" by (auto simp: list_all_iff)
qed

lemma copy_and_substitute_returned:
  assumes "copy_and_substitute t ms target subs = (d1, out1, Returned)"
  shows "map_of ms target = None \<and> (\<exists>tree. d1 = AList.update target (Dir tree) ms)"
  using assms
  by (auto simp: copy_and_substitute_def Let_def
      split: if_splits node.splits prod.splits option.splits)

lemma create_main_returned:
  assumes "create_main args stdin w = (w', out, Returned)" "arg_module_id args = Some X" "X \<noteq> []"
  shows "validate_module_id X \<and>
    (\<exists>t ms subs d1 out1 d2 out2. modules w = Some ms
       \<and> copy_and_substitute t ms X subs = (d1, out1, Returned)
       \<and> update_modules_cmake d1 X = (d2, out2, Returned) \<and> w' = w\<lparr>modules := Some d2\<rparr>)"
proof -
  note c = collect_module_info_given [OF assms(2,3), of stdin]
  show ?thesis
  proof (cases "validate_module_id X")
    case False
    with c assms(1) show ?thesis
      by (auto simp: create_main_def split: option.splits)
  next
    case True
    with c assms(1) show ?thesis
      by (auto simp: create_main_def split: option.splits prod.splits if_splits) blast
  qed
qed

lemma registry_text_SomeD:
  "registry_text ms = Some content \<Longrightarrow>
   \<exists>f. map_of ms cmake_name = Some (File f) \<and> readable f \<and> data f = Text content"
  by (auto simp: registry_text_def split: option.splits node.splits content.splits if_splits)

lemma registry_text_other_update:
  "X \<noteq> cmake_name \<Longrightarrow> registry_text (AList.update X v ms) = registry_text ms"
  by (simp add: registry_text_def update_conv')

lemma registry_text_other_delete:
  "X \<noteq> cmake_name \<Longrightarrow> registry_text (AList.delete X ms) = registry_text ms"
  by (simp add: registry_text_def delete_conv')

lemma remove_main_returned:
  assumes "remove_main args stdin w = (w', out, Returned)"
  shows "\<exists>ms. modules w = Some ms
     \<and> snd (snd (remove_from_cmake ms (rm_module_id args)))
     \<and> snd (snd (remove_module_directory (fst (remove_from_cmake ms (rm_module_id args))) (rm_module_id args)))
     \<and> w' = w\<lparr>modules := Some (fst (remove_module_directory
                (fst (remove_from_cmake ms (rm_module_id args))) (rm_module_id args)))\<rparr>"
  using assms
  by (auto simp: remove_main_def Let_def split: option.splits if_splits prod.splits bool.splits)

lemma remove_from_cmake_TrueD:
  assumes "snd (snd (remove_from_cmake ms X))"
  shows "\<exists>f content. map_of ms cmake_name = Some (File f) \<and> readable f \<and> data f = Text content
     \<and> fst (remove_from_cmake ms X)
         = AList.update cmake_name
             (File (f\<lparr>data := Text (concat (filter (\<lambda>l. \<not> is_line_for X l) (readlines content)))\<rparr>)) ms"
proof -
  from assms obtain f content where f: "map_of ms cmake_name = Some (File f)" "readable f" "data f = Text content"
    by (auto simp: remove_from_cmake_def split: option.splits node.splits content.splits if_splits)
  from assms show ?thesis
    using f unfolding remove_from_cmake_eq [OF f] by (auto split: if_splits)
qed

lemma remove_module_directory_TrueD:
  "snd (snd (remove_module_directory ms X)) \<Longrightarrow>
   (\<exists>es. map_of ms X = Some (Dir es)) \<and> fst (remove_module_directory ms X) = AList.delete X ms"
  by (auto simp: remove_module_directory_def split: option.splits node.splits)

lemma lines_for_removed:
  "lines_for X (concat (filter (\<lambda>l. \<not> is_line_for X l) (readlines content))) = []"
  by (simp add: lines_for_def readlines_concat line_list_filter line_list_readlines)

text \<open>
  Claim C1 (amended): after a run of createModule.py for a non-empty identifier X given on the
  command line that returns from \<open>main\<close>, when the registry text beforehand either had a
  line for X or did not contain the directive and was empty or ended with a newline, the
  directory \<open>modules/X\<close> exists and the registry has a line for X; after a run of
  removeModule.py for X that returns from \<open>main\<close>, neither exists.
\<close>

theorem registry_matches_directory:
  "(arg_module_id args = Some X \<and> X \<noteq> [] \<and> modules w = Some ms \<and> registry_text ms = Some content
      \<and> (lines_for X content \<noteq> []
           \<or> (\<not> str_contains content (add_line X) \<and> (content = [] \<or> last content = newline)))
      \<and> create_main args stdin w = (w', out, Returned)
    \<longrightarrow> module_dir_exists w' X \<and> registry_has_line w' X)
   \<and> (rm_module_id rargs = X \<and> remove_main rargs rstdin w = (w'', rout, Returned)
    \<longrightarrow> \<not> module_dir_exists w'' X \<and> \<not> registry_has_line w'' X)"
proof (rule conjI; rule impI)
  assume a: "arg_module_id args = Some X \<and> X \<noteq> [] \<and> modules w = Some ms \<and> registry_text ms = Some content
      \<and> (lines_for X content \<noteq> []
           \<or> (\<not> str_contains content (add_line X) \<and> (content = [] \<or> last content = newline)))
      \<and> create_main args stdin w = (w', out, Returned)"
  then have v: "validate_module_id X" using create_main_returned by blast
  from a create_main_returned [of args stdin w w' out X]
  obtain t subs d1 out1 d2 out2 where c: "copy_and_substitute t ms X subs = (d1, out1, Returned)"
    and u: "update_modules_cmake d1 X = (d2, out2, Returned)" and w': "w' = w\<lparr>modules := Some d2\<rparr>"
    by auto
  from copy_and_substitute_returned [OF c] obtain tree where d1: "d1 = AList.update X (Dir tree) ms"
    by blast
  note x = validate_module_id_facts [OF v]
  have rt: "registry_text d1 = Some content"
    using a x(1) by (simp add: d1 registry_text_other_update)
  then obtain f where f: "map_of d1 cmake_name = Some (File f)" "readable f" "data f = Text content"
    using registry_text_SomeD by blast
  have dx: "map_of d1 X = Some (Dir tree)" by (simp add: d1 map_of_update_same)
  note e = update_modules_cmake_eq [OF f, of X]
  show "module_dir_exists w' X \<and> registry_has_line w' X"
  proof (cases "str_contains content (add_line X)")
    case True
    with e u have "d2 = d1" by simp
    moreover from True a have "lines_for X content \<noteq> []" by blast
    ultimately show ?thesis
      using rt dx by (simp add: w' module_dir_exists_def registry_has_line_def)
  next
    case False
    with e u have wr: "writable f"
      and d2: "d2 = AList.update cmake_name (File (f\<lparr>data := Text (content @ add_line X @ [newline])\<rparr>)) d1"
      by (auto split: if_splits)
    from False a have t: "content = [] \<or> last content = newline"
      using lines_for_contains by blast
    have "registry_text d2 = Some (content @ add_line X @ [newline])"
      unfolding d2 using f(2) by (rule registry_text_update)
    moreover have "lines_for X (content @ add_line X @ [newline]) = [add_line X @ [newline]]"
      using False t x(2) by (rule lines_for_added)
    moreover have "map_of d2 X = Some (Dir tree)"
      using dx x(1) by (simp add: d2 update_conv')
    ultimately show ?thesis
      by (simp add: w' module_dir_exists_def registry_has_line_def)
  qed
next
  assume a: "rm_module_id rargs = X \<and> remove_main rargs rstdin w = (w'', rout, Returned)"
  with remove_main_returned [of rargs rstdin w w'' rout]
  obtain ms' where r1: "snd (snd (remove_from_cmake ms' X))"
    and r2: "snd (snd (remove_module_directory (fst (remove_from_cmake ms' X)) X))"
    and w'': "w'' = w\<lparr>modules := Some (fst (remove_module_directory (fst (remove_from_cmake ms' X)) X))\<rparr>"
    by auto
  let ?d1 = "fst (remove_from_cmake ms' X)"
  from remove_from_cmake_TrueD [OF r1] obtain f content' where f: "readable f"
    and d1: "?d1 = AList.update cmake_name
             (File (f\<lparr>data := Text (concat (filter (\<lambda>l. \<not> is_line_for X l) (readlines content')))\<rparr>)) ms'"
    by blast
  from remove_module_directory_TrueD [OF r2] obtain es where es: "map_of ?d1 X = Some (Dir es)"
    and d2: "fst (remove_module_directory ?d1 X) = AList.delete X ?d1" by blast
  have "map_of ?d1 cmake_name
      = Some (File (f\<lparr>data := Text (concat (filter (\<lambda>l. \<not> is_line_for X l) (readlines content')))\<rparr>))"
    unfolding d1 by (rule map_of_update_same)
  with es have x: "X \<noteq> cmake_name" by auto
  have "registry_text ?d1 = Some (concat (filter (\<lambda>l. \<not> is_line_for X l) (readlines content')))"
    unfolding d1 using f by (rule registry_text_update)
  then have "registry_text (AList.delete X ?d1)
      = Some (concat (filter (\<lambda>l. \<not> is_line_for X l) (readlines content')))"
    using x by (simp add: registry_text_other_delete)
  moreover have "map_of (AList.delete X ?d1) X = None" by (simp add: delete_conv')
  ultimately show "\<not> module_dir_exists w'' X \<and> \<not> registry_has_line w'' X"
    by (simp add: w'' d2 module_dir_exists_def registry_has_line_def lines_for_removed)
qed

theorem registry_matches_directory_witness:
  "create_main \<lparr>arg_module_id = Some ''VERB'', arg_name = None, arg_description = None, arg_brand = None,
      arg_author = None, arg_email = None, arg_website = None\<rparr> []
     \<lparr>template = Some (Dir [(''README.md'', text_file ''# __NAME__'')]),
      modules = Some [(cmake_name, text_file [])]\<rparr>
   = (\<lparr>template = Some (Dir [(''README.md'', text_file ''# __NAME__'')]),
      modules = Some [(cmake_name, text_file (''add_subdirectory(VERB)'' @ [newline])),
                      (''VERB'', Dir [(''README.md'', text_file ''# VERB''), (''VERB-rnbo'', Dir [])])]\<rparr>,
      [CopyingTemplate ''VERB'', CreatedExportDir ''VERB-rnbo'', TemplateProcessed, AddedToCMake ''VERB'',
       NextSteps ''VERB''],
      Returned)
   \<and> module_dir_exists
       \<lparr>template = Some (Dir [(''README.md'', text_file ''# __NAME__'')]),
        modules = Some [(cmake_name, text_file (''add_subdirectory(VERB)'' @ [newline])),
                      (''VERB'', Dir [(''README.md'', text_file ''# VERB''), (''VERB-rnbo'', Dir [])])]\<rparr> ''VERB''
   \<and> registry_has_line
       \<lparr>template = Some (Dir [(''README.md'', text_file ''# __NAME__'')]),
        modules = Some [(cmake_name, text_file (''add_subdirectory(VERB)'' @ [newline])),
                      (''VERB'', Dir [(''README.md'', text_file ''# VERB''), (''VERB-rnbo'', Dir [])])]\<rparr> ''VERB''
   \<and> remove_main \<lparr>rm_module_id = ''VERB'', rm_force = True, rm_list = False\<rparr> []
       \<lparr>template = Some (Dir [(''README.md'', text_file ''# __NAME__'')]),
        modules = Some [(cmake_name, text_file (''add_subdirectory(VERB)'' @ [newline])),
                      (''VERB'', Dir [(''README.md'', text_file ''# VERB''), (''VERB-rnbo'', Dir [])])]\<rparr>
   = (\<lparr>template = Some (Dir [(''README.md'', text_file ''# __NAME__'')]),
      modules = Some [(cmake_name, text_file [])]\<rparr>,
      [RemovingModule ''VERB'', RemovedFromCMake ''VERB'', RemovingDirectory ''VERB'', RemovedDirectory ''VERB'',
       SuccessfullyRemoved ''VERB''],
      Returned)
   \<and> \<not> module_dir_exists
       \<lparr>template = Some (Dir [(''README.md'', text_file ''# __NAME__'')]),
        modules = Some [(cmake_name, text_file [])]\<rparr> ''VERB''
   \<and> \<not> registry_has_line
       \<lparr>template = Some (Dir [(''README.md'', text_file ''# __NAME__'')]),
        modules = Some [(cmake_name, text_file [])]\<rparr> ''VERB''"
proof -
  let ?args = "\<lparr>arg_module_id = Some ''VERB'', arg_name = None, arg_description = None, arg_brand = None,
      arg_author = None, arg_email = None, arg_website = None\<rparr>"
  let ?rargs = "\<lparr>rm_module_id = ''VERB'', rm_force = True, rm_list = False\<rparr>"
  let ?w0 = "\<lparr>template = Some (Dir [(''README.md'', text_file ''# __NAME__'')]),
      modules = Some [(cmake_name, text_file [])]\<rparr>"
  let ?w1 = "\<lparr>template = Some (Dir [(''README.md'', text_file ''# __NAME__'')]),
      modules = Some [(cmake_name, text_file (''add_subdirectory(VERB)'' @ [newline])),
                      (''VERB'', Dir [(''README.md'', text_file ''# VERB''), (''VERB-rnbo'', Dir [])])]\<rparr>"
  let ?o1 = "[CopyingTemplate ''VERB'', CreatedExportDir ''VERB-rnbo'', TemplateProcessed, AddedToCMake ''VERB'',
       NextSteps ''VERB'']"
  let ?o2 = "[RemovingModule ''VERB'', RemovedFromCMake ''VERB'', RemovingDirectory ''VERB'',
       RemovedDirectory ''VERB'', SuccessfullyRemoved ''VERB'']"
  have c: "create_main ?args [] ?w0 = (?w1, ?o1, Returned)"
    by (simp add: create_defs validate_defs)
  have r: "remove_main ?rargs [] ?w1 = (?w0, ?o2, Returned)"
    by (simp add: remove_defs char_defs str_strip_def Let_def)
  have t: "registry_text [(cmake_name, text_file [])] = Some []"
    by (simp add: registry_text_def text_file_def)
  have 1: "module_dir_exists ?w1 ''VERB'' \<and> registry_has_line ?w1 ''VERB''"
    by (rule mp [OF conjunct1 [OF registry_matches_directory
            [of ?args "''VERB''" ?w0 "[(cmake_name, text_file [])]" "[]" "[]" ?w1 ?o1]]])
      (simp add: c t add_line_def)
  have 2: "\<not> module_dir_exists ?w0 ''VERB'' \<and> \<not> registry_has_line ?w0 ''VERB''"
    by (rule mp [OF conjunct2 [OF registry_matches_directory
            [of ?args "''VERB''" ?w1 "[]" "[]" "[]" ?w1 "[]" ?rargs "[]" ?w0 ?o2]]])
      (rule conjI, simp, rule r)
  from c r 1 2 show ?thesis by simp
qed

text \<open>
  Claim C1 (as stated): a create that finds no registry file leaves the module directory
  without a line, and a remove that cannot write the registry leaves the line without
  the directory.
\<close>

theorem registry_matches_directory_counterexample:
  "create_main \<lparr>arg_module_id = Some ''VERB'', arg_name = None, arg_description = None, arg_brand = None,
      arg_author = None, arg_email = None, arg_website = None\<rparr> []
     \<lparr>template = Some (Dir [(''README.md'', text_file ''# __NAME__'')]), modules = Some []\<rparr>
   = (\<lparr>template = Some (Dir [(''README.md'', text_file ''# __NAME__'')]),
      modules = Some [(''VERB'', Dir [(''README.md'', text_file ''# VERB''), (''VERB-rnbo'', Dir [])])]\<rparr>,
      [CopyingTemplate ''VERB'', CreatedExportDir ''VERB-rnbo'', TemplateProcessed, ErrCMakeNotFound],
      SysExit 1)
   \<and> module_dir_exists
       \<lparr>template = Some (Dir [(''README.md'', text_file ''# __NAME__'')]),
        modules = Some [(''VERB'', Dir [(''README.md'', text_file ''# VERB''), (''VERB-rnbo'', Dir [])])]\<rparr> ''VERB''
   \<and> \<not> registry_has_line
       \<lparr>template = Some (Dir [(''README.md'', text_file ''# __NAME__'')]),
        modules = Some [(''VERB'', Dir [(''README.md'', text_file ''# VERB''), (''VERB-rnbo'', Dir [])])]\<rparr> ''VERB''
   \<and> remove_main \<lparr>rm_module_id = ''VERB'', rm_force = True, rm_list = False\<rparr> []
       \<lparr>template = None,
        modules = Some [(cmake_name, File \<lparr>data = Text (''add_subdirectory(VERB)'' @ [newline]),
                                             readable = True, writable = False\<rparr>),
                        (''VERB'', Dir [])]\<rparr>
   = (\<lparr>template = None,
      modules = Some [(cmake_name, File \<lparr>data = Text (''add_subdirectory(VERB)'' @ [newline]),
                                             readable = True, writable = False\<rparr>)]\<rparr>,
      [RemovingModule ''VERB'', ErrUpdatingCMake, RemovingDirectory ''VERB'', RemovedDirectory ''VERB'',
       PartiallyRemoved ''VERB''],
      SysExit 1)
   \<and> \<not> module_dir_exists
       \<lparr>template = None,
        modules = Some [(cmake_name, File \<lparr>data = Text (''add_subdirectory(VERB)'' @ [newline]),
                                             readable = True, writable = False\<rparr>)]\<rparr> ''VERB''
   \<and> registry_has_line
       \<lparr>template = None,
        modules = Some [(cmake_name, File \<lparr>data = Text (''add_subdirectory(VERB)'' @ [newline]),
                                             readable = True, writable = False\<rparr>)]\<rparr> ''VERB''"
  by (simp add: create_defs validate_defs remove_defs notion_defs)

end
